theory Spec2Isabelle
  imports Complex_Main "HOL-Library.Multiset" "HOL-Library.Product_Lexorder"
begin

section \<open>Data model of app.py\<close>

text \<open>
  The application is a set of Flask request handlers over two SQLAlchemy tables.
  A handler is modelled as a function from the request (the logged-in user, the HTTP
  method, the form or query arguments) and the committed contents of the table to the
  new committed contents, the messages passed to \<^verbatim>\<open>flash\<close>, and the response.
  The table changes only where the source calls \<^verbatim>\<open>db.session.commit()\<close>: attribute
  assignments to a loaded row live in the request's session and are dropped with it when
  the request ends without a commit.

  Strings are \<^typ>\<open>string\<close>; characters outside Latin-1 are not represented.
\<close>

text \<open>\<^verbatim>\<open>datetime.date\<close>: a calendar date, compared by (year, month, day).\<close>

record pydate =
  year :: nat
  month :: nat
  day :: nat

text \<open>
  \<^verbatim>\<open>db.Float\<close> values are Python floats. The handlers use these operations on them:
  \<^verbatim>\<open>float(s)\<close> (\<open>None\<close> stands for the \<^verbatim>\<open>ValueError\<close>), \<^verbatim>\<open>str(x)\<close>, the test for NaN
  (SQLite binds a NaN as NULL, which the column's \<^verbatim>\<open>nullable=False\<close> rejects at commit),
  and the addition and the zero with which SQL's \<^verbatim>\<open>sum\<close> adds up a group. The handlers
  take these operations as a parameter, so that what is proved of a handler holds for
  every float arithmetic.
\<close>

record 'a float_ops =
  float_of_str :: "string \<Rightarrow> 'a option"
  float_str :: "'a \<Rightarrow> string"
  float_isnan :: "'a \<Rightarrow> bool"
  float_add :: "'a \<Rightarrow> 'a \<Rightarrow> 'a"
  float_zero :: 'a

text \<open>The two tables. \<open>e_id\<close> and \<open>u_id\<close> are the primary keys \<^verbatim>\<open>id\<close>.\<close>

record User =
  u_id :: nat
  username :: string
  password :: string

record 'a Expense =
  e_id :: nat
  description :: string
  amount :: 'a
  date :: pydate
  category :: string
  user_id :: nat

datatype http_method = GET | POST

text \<open>
  Exceptions caught by the handlers' \<^verbatim>\<open>except Exception as e\<close>; the flashed text
  ends in \<^verbatim>\<open>str(e)\<close>, kept here as the exception itself.
\<close>

datatype pyexc =
    ValueError_strptime string
  | ValueError_float string
  | IntegrityError

datatype flash =
    Flash string string
  | FlashExc string pyexc string

datatype 'a response =
    Redirect string
  | RedirectEdit nat
  | Render string
  | RenderExpenses "'a Expense list"
  | RenderEdit "'a Expense"
  | RenderDashboard "string list" "'a list" "string list" "'a list"
  | Csv string
  | Abort nat

section \<open>Dates: strptime, strftime, comparison\<close>

definition is_digit :: "char \<Rightarrow> bool" where
  "is_digit c = (c \<in> set ''0123456789'')"

definition digit_val :: "char \<Rightarrow> nat" where
  "digit_val c = of_char c - 48"

definition digit_char :: "nat \<Rightarrow> char" where
  "digit_char n = char_of (48 + n)"

text \<open>\<^verbatim>\<open>int(s)\<close> on a string of decimal digits.\<close>

definition py_int :: "string \<Rightarrow> nat" where
  "py_int s = foldl (\<lambda>n c. 10 * n + digit_val c) 0 s"

definition is_leap :: "nat \<Rightarrow> bool" where
  "is_leap y = (y mod 4 = 0 \<and> (y mod 100 \<noteq> 0 \<or> y mod 400 = 0))"

definition days_in_month :: "nat \<Rightarrow> nat \<Rightarrow> nat" where
  "days_in_month y m =
     (if m = 2 then (if is_leap y then 29 else 28)
      else if m \<in> {4, 6, 9, 11} then 30 else 31)"

text \<open>The constructor \<^verbatim>\<open>date(y, m, d)\<close>, which raises \<^verbatim>\<open>ValueError\<close> out of range.\<close>

definition valid_date :: "pydate \<Rightarrow> bool" where
  "valid_date d =
     (1 \<le> year d \<and> year d \<le> 9999 \<and> 1 \<le> month d \<and> month d \<le> 12 \<and>
      1 \<le> day d \<and> day d \<le> days_in_month (year d) (month d))"

definition make_date :: "nat \<Rightarrow> nat \<Rightarrow> nat \<Rightarrow> pydate option" where
  "make_date y m d =
     (let r = \<lparr>year = y, month = m, day = d\<rparr> in if valid_date r then Some r else None)"

text \<open>
  \<^verbatim>\<open>datetime.strptime(s, '%Y-%m-%d').date()\<close>. The format compiles to the regular
  expression \<^verbatim>\<open>(\d\d\d\d)-(1[0-2]|0[1-9]|[1-9])-(3[0-1]|[1-2]\d|0[1-9]|[1-9]| [1-9])\<close>,
  matched at the start of the string; text left over after the match, or a day the month
  does not have, is a \<^verbatim>\<open>ValueError\<close>. Each of \<open>re_m\<close> and \<open>re_d\<close> tries the
  alternatives of its group in the order written and returns the number with the rest of
  the string.
\<close>

fun re_m :: "string \<Rightarrow> (nat \<times> string) option" where
  "re_m (a # b # r) =
     (if a = CHR ''1'' \<and> b \<in> set ''012'' then Some (py_int [a, b], r)
      else if a = CHR ''0'' \<and> b \<in> set ''123456789'' then Some (py_int [a, b], r)
      else if a \<in> set ''123456789'' then Some (py_int [a], b # r)
      else None)"
| "re_m [a] = (if a \<in> set ''123456789'' then Some (py_int [a], []) else None)"
| "re_m [] = None"

fun re_d :: "string \<Rightarrow> (nat \<times> string) option" where
  "re_d (a # b # r) =
     (if a = CHR ''3'' \<and> b \<in> set ''01'' then Some (py_int [a, b], r)
      else if a \<in> set ''12'' \<and> is_digit b then Some (py_int [a, b], r)
      else if a = CHR ''0'' \<and> b \<in> set ''123456789'' then Some (py_int [a, b], r)
      else if a \<in> set ''123456789'' then Some (py_int [a], b # r)
      else if a = CHR '' '' \<and> b \<in> set ''123456789'' then Some (py_int [b], r)
      else None)"
| "re_d [a] = (if a \<in> set ''123456789'' then Some (py_int [a], []) else None)"
| "re_d [] = None"

definition strptime :: "string \<Rightarrow> pydate option" where
  "strptime s =
     (case s of
        y1 # y2 # y3 # y4 # h1 # r1 \<Rightarrow>
          if is_digit y1 \<and> is_digit y2 \<and> is_digit y3 \<and> is_digit y4 \<and> h1 = CHR ''-''
          then (case re_m r1 of
                  Some (m, h2 # r2) \<Rightarrow>
                    if h2 = CHR ''-''
                    then (case re_d r2 of
                            Some (d, []) \<Rightarrow> make_date (py_int [y1, y2, y3, y4]) m d
                          | _ \<Rightarrow> None)
                    else None
                | _ \<Rightarrow> None)
          else None
      | _ \<Rightarrow> None)"

text \<open>
  \<^verbatim>\<open>strftime\<close>: the decimal digits of a number, padded with zeros on the left to a
  width. \<^verbatim>\<open>%Y\<close> is taken as four digits wide, \<^verbatim>\<open>%m\<close> and \<^verbatim>\<open>%d\<close> as two.
\<close>

fun digits :: "nat \<Rightarrow> string" where
  "digits n = (if n < 10 then [digit_char n] else digits (n div 10) @ [digit_char (n mod 10)])"

declare digits.simps [simp del]

definition zfill :: "nat \<Rightarrow> nat \<Rightarrow> string" where
  "zfill w n = replicate (w - length (digits n)) (CHR ''0'') @ digits n"


text \<open>SQLite's \<^verbatim>\<open>strftime('%m', date)\<close> on a stored date.\<close>

definition strftime_m :: "pydate \<Rightarrow> string" where
  "strftime_m d = zfill 2 (month d)"

text \<open>
  Dates are stored as the text \<^verbatim>\<open>YYYY-MM-DD\<close> and compared as such, which for the
  dates Python can build is the order of (year, month, day).
\<close>

definition date_key :: "pydate \<Rightarrow> nat \<times> nat \<times> nat" where
  "date_key d = (year d, month d, day d)"

section \<open>The session: queries and commits on the expense table\<close>

text \<open>\<^verbatim>\<open>Expense.query.get(id)\<close>, the row with that primary key.\<close>

definition query_get :: "nat \<Rightarrow> 'a Expense list \<Rightarrow> 'a Expense option" where
  "query_get i tbl = find (\<lambda>e. e_id e = i) tbl"

definition filter_by_user_id :: "nat \<Rightarrow> 'a Expense list \<Rightarrow> 'a Expense list" where
  "filter_by_user_id uid tbl = filter (\<lambda>e. user_id e = uid) tbl"

text \<open>
  \<^verbatim>\<open>order_by(Expense.date.desc())\<close>: later dates first. SQL leaves the order of rows
  with equal dates open; the model keeps them in table order.
\<close>

definition order_by_date_desc :: "'a Expense list \<Rightarrow> 'a Expense list" where
  "order_by_date_desc rows = rev (sort_key (\<lambda>e. date_key (date e)) (rev rows))"

text \<open>The key SQLite gives a new row: one more than the largest key in the table.\<close>

definition next_id :: "'a Expense list \<Rightarrow> nat" where
  "next_id tbl = Suc (fold max (map e_id tbl) 0)"

text \<open>
  \<^verbatim>\<open>db.session.commit()\<close> after \<^verbatim>\<open>db.session.add(e)\<close>, after changing a loaded row,
  and after \<^verbatim>\<open>db.session.delete(e)\<close>. The first two raise when the amount is NULL.
\<close>

definition commit_add :: "'a float_ops \<Rightarrow> 'a Expense \<Rightarrow> 'a Expense list \<Rightarrow> pyexc + 'a Expense list" where
  "commit_add F e tbl =
     (if float_isnan F (amount e) then Inl IntegrityError
      else Inr (tbl @ [e\<lparr>e_id := next_id tbl\<rparr>]))"

definition commit_update :: "'a float_ops \<Rightarrow> 'a Expense \<Rightarrow> 'a Expense list \<Rightarrow> pyexc + 'a Expense list" where
  "commit_update F e tbl =
     (if float_isnan F (amount e) then Inl IntegrityError
      else Inr (map (\<lambda>r. if e_id r = e_id e then e else r) tbl))"

definition commit_delete :: "'a Expense \<Rightarrow> 'a Expense list \<Rightarrow> 'a Expense list" where
  "commit_delete e tbl = filter (\<lambda>r. e_id r \<noteq> e_id e) tbl"

section \<open>Handlers\<close>

text \<open>\<^verbatim>\<open>@login_required\<close> without a logged-in user: Flask-Login flashes and redirects.\<close>

definition unauthorized :: "flash list \<times> 'a response" where
  "unauthorized = ([Flash ''Please log in to access this page.'' ''message''], Redirect ''login'')"

text \<open>
  \<^verbatim>\<open>login\<close>. \<open>chk\<close> is werkzeug's \<^verbatim>\<open>check_password_hash\<close>. The first component of the
  result is the user the session is bound to afterwards.
\<close>

definition login ::
  "(string \<Rightarrow> string \<Rightarrow> bool) \<Rightarrow> nat option \<Rightarrow> http_method \<Rightarrow> (string \<rightharpoonup> string) \<Rightarrow> User list
     \<Rightarrow> nat option \<times> flash list \<times> 'a response" where
  "login chk cu meth form users =
     (if meth = POST then
        (case form ''username'' of
           None \<Rightarrow> (cu, [], Abort 400)
         | Some uname \<Rightarrow>
        (case form ''password'' of
           None \<Rightarrow> (cu, [], Abort 400)
         | Some pw \<Rightarrow>
        (let user = find (\<lambda>u. username u = uname) users in
         (case user of
            Some u \<Rightarrow>
              if chk (password u) pw then (Some (u_id u), [], Redirect ''expenses'')
              else (cu, [Flash ''Invalid username or password!'' ''danger''], Redirect ''login'')
          | None \<Rightarrow> (cu, [Flash ''Invalid username or password!'' ''danger''], Redirect ''login'')))))
      else (cu, [], Render ''login.html''))"

text \<open>
  \<^verbatim>\<open>expenses\<close>. \<^verbatim>\<open>request.args.get\<close> gives \<open>None\<close> for a missing parameter; both
  \<open>None\<close> and the empty string are false in \<^verbatim>\<open>if start_date:\<close>.
\<close>

definition expenses ::
  "nat option \<Rightarrow> (string \<rightharpoonup> string) \<Rightarrow> 'a Expense list \<Rightarrow> flash list \<times> 'a response" where
  "expenses cu args tbl =
     (case cu of None \<Rightarrow> unauthorized | Some uid \<Rightarrow>
      let start_date = args ''start_date'';
          end_date = args ''end_date'';
          query = filter_by_user_id uid tbl;
          (query, fl1) =
            (case start_date of
               None \<Rightarrow> (query, [])
             | Some s \<Rightarrow>
                 if s = [] then (query, [])
                 else (case strptime s of
                         Some d \<Rightarrow> (filter (\<lambda>e. date_key d \<le> date_key (date e)) query, [])
                       | None \<Rightarrow>
                           (query, [Flash ''Invalid start date format. Use YYYY-MM-DD.'' ''danger''])));
          (query, fl2) =
            (case end_date of
               None \<Rightarrow> (query, [])
             | Some s \<Rightarrow>
                 if s = [] then (query, [])
                 else (case strptime s of
                         Some d \<Rightarrow> (filter (\<lambda>e. date_key (date e) \<le> date_key d) query, [])
                       | None \<Rightarrow>
                           (query, [Flash ''Invalid end date format. Use YYYY-MM-DD.'' ''danger''])))
      in (fl1 @ fl2, RenderExpenses (order_by_date_desc query)))"

text \<open>
  \<^verbatim>\<open>add_expense\<close>. A missing form field is werkzeug's \<^verbatim>\<open>BadRequestKeyError\<close>
  (status 400). Inside the \<^verbatim>\<open>try\<close> the date is parsed first, then the amount.
\<close>

definition add_expense ::
  "'a float_ops \<Rightarrow> nat option \<Rightarrow> http_method \<Rightarrow> (string \<rightharpoonup> string) \<Rightarrow> 'a Expense list
     \<Rightarrow> 'a Expense list \<times> flash list \<times> 'a response" where
  "add_expense F cu meth form tbl =
     (case cu of
        None \<Rightarrow> (tbl, unauthorized)
      | Some uid \<Rightarrow>
     (if meth = POST then
        (case form ''description'' of None \<Rightarrow> (tbl, [], Abort 400) | Some desc \<Rightarrow>
        (case form ''amount'' of None \<Rightarrow> (tbl, [], Abort 400) | Some amt \<Rightarrow>
        (case form ''date'' of None \<Rightarrow> (tbl, [], Abort 400) | Some date_str \<Rightarrow>
        (case form ''category'' of None \<Rightarrow> (tbl, [], Abort 400) | Some cat \<Rightarrow>
        (let failed = (\<lambda>e. (tbl, [FlashExc ''Error adding expense: '' e ''danger''],
                             Redirect ''add_expense'')) in
        (case strptime date_str of None \<Rightarrow> failed (ValueError_strptime date_str) | Some date_obj \<Rightarrow>
        (case float_of_str F amt of None \<Rightarrow> failed (ValueError_float amt) | Some a \<Rightarrow>
        (let new_expense = \<lparr>e_id = 0, description = desc, amount = a, date = date_obj,
                             category = cat, user_id = uid\<rparr> in
        (case commit_add F new_expense tbl of
           Inl e \<Rightarrow> failed e
         | Inr tbl' \<Rightarrow>
             (tbl', [Flash ''Expense added successfully!'' ''success''],
              Redirect ''expenses''))))))))))
      else (tbl, [], Render ''add_expense.html'')))"

text \<open>
  \<^verbatim>\<open>edit_expense\<close>. The description, the amount and the category are assigned to the
  loaded row before the \<^verbatim>\<open>try\<close>; \<^verbatim>\<open>float\<close> is called outside it, so its \<^verbatim>\<open>ValueError\<close>
  is not caught and the request ends with status 500.
\<close>

definition edit_expense ::
  "'a float_ops \<Rightarrow> nat option \<Rightarrow> http_method \<Rightarrow> nat \<Rightarrow> (string \<rightharpoonup> string) \<Rightarrow> 'a Expense list
     \<Rightarrow> 'a Expense list \<times> flash list \<times> 'a response" where
  "edit_expense F cu meth expense_id form tbl =
     (case cu of
        None \<Rightarrow> (tbl, unauthorized)
      | Some uid \<Rightarrow>
     (case query_get expense_id tbl of
        None \<Rightarrow> (tbl, [], Abort 404)
      | Some expense \<Rightarrow>
     (if user_id expense \<noteq> uid then
        (tbl, [Flash ''You are not authorized to edit this expense.'' ''danger''],
         Redirect ''expenses'')
      else if meth = POST then
        (case form ''description'' of None \<Rightarrow> (tbl, [], Abort 400) | Some desc \<Rightarrow>
        (let expense = expense\<lparr>description := desc\<rparr> in
        (case form ''amount'' of None \<Rightarrow> (tbl, [], Abort 400) | Some amt \<Rightarrow>
        (case float_of_str F amt of None \<Rightarrow> (tbl, [], Abort 500) | Some a \<Rightarrow>
        (let expense = expense\<lparr>amount := a\<rparr> in
        (case form ''date'' of None \<Rightarrow> (tbl, [], Abort 400) | Some date_str \<Rightarrow>
        (case form ''category'' of None \<Rightarrow> (tbl, [], Abort 400) | Some cat \<Rightarrow>
        (let expense = expense\<lparr>category := cat\<rparr>;
             failed = (\<lambda>e. (tbl, [FlashExc ''Error updating expense: '' e ''danger''],
                             RedirectEdit expense_id)) in
        (case strptime date_str of None \<Rightarrow> failed (ValueError_strptime date_str) | Some d \<Rightarrow>
        (let expense = expense\<lparr>date := d\<rparr> in
        (case commit_update F expense tbl of
           Inl e \<Rightarrow> failed e
         | Inr tbl' \<Rightarrow>
             (tbl', [Flash ''Expense updated successfully!'' ''success''],
              Redirect ''expenses''))))))))))))
      else (tbl, [], RenderEdit expense))))"

text \<open>\<^verbatim>\<open>delete_expense\<close>.\<close>

definition delete_expense ::
  "nat option \<Rightarrow> nat \<Rightarrow> 'a Expense list \<Rightarrow> 'a Expense list \<times> flash list \<times> 'a response" where
  "delete_expense cu expense_id tbl =
     (case cu of
        None \<Rightarrow> (tbl, unauthorized)
      | Some uid \<Rightarrow>
     (case query_get expense_id tbl of
        None \<Rightarrow> (tbl, [], Abort 404)
      | Some expense \<Rightarrow>
     (if user_id expense \<noteq> uid then
        (tbl, [Flash ''You are not authorized to delete this expense.'' ''danger''],
         Redirect ''expenses'')
      else (commit_delete expense tbl, [Flash ''Expense deleted successfully!'' ''success''],
            Redirect ''expenses''))))"

text \<open>
  \<^verbatim>\<open>dashboard\<close>. SQL's \<^verbatim>\<open>sum\<close> adds the amounts of a group to 0.0 in the order the
  rows are read. \<open>group_sum\<close> is \<^verbatim>\<open>query(key, func.sum(amount)).group_by(key)\<close>: one
  row per distinct key (SQL leaves the order of the groups open).
\<close>

definition sql_sum :: "'a float_ops \<Rightarrow> 'a list \<Rightarrow> 'a" where
  "sql_sum F xs = foldl (float_add F) (float_zero F) xs"

definition group_sum :: "'a float_ops \<Rightarrow> ('a Expense \<Rightarrow> 'k) \<Rightarrow> 'a Expense list \<Rightarrow> ('k \<times> 'a) list" where
  "group_sum F key rows =
     map (\<lambda>k. (k, sql_sum F (map amount (filter (\<lambda>e. key e = k) rows))))
       (remdups (map key rows))"

definition month_abbr :: "string list" where
  "month_abbr = ['''', ''Jan'', ''Feb'', ''Mar'', ''Apr'', ''May'', ''Jun'',
                 ''Jul'', ''Aug'', ''Sep'', ''Oct'', ''Nov'', ''Dec'']"

text \<open>
  In the dictionary comprehension a later pair with the same key replaces an earlier
  one; \<^verbatim>\<open>monthly_dict.get(i, 0)\<close> falls back to zero.
\<close>

definition dashboard ::
  "'a float_ops \<Rightarrow> nat option \<Rightarrow> 'a Expense list \<Rightarrow> flash list \<times> 'a response" where
  "dashboard F cu tbl =
     (case cu of None \<Rightarrow> unauthorized | Some uid \<Rightarrow>
      let expense_data = group_sum F category (filter_by_user_id uid tbl);
          labels = map fst expense_data;
          vals = map snd expense_data;
          monthly_expenses = group_sum F (\<lambda>e. strftime_m (date e)) (filter_by_user_id uid tbl);
          monthly_dict = map_of (rev (map (\<lambda>(month, total). (py_int month, total)) monthly_expenses));
          monthlyLabels = map (\<lambda>i. month_abbr ! i) [1..<13];
          monthlyData = map (\<lambda>i. case monthly_dict i of Some t \<Rightarrow> t | None \<Rightarrow> float_zero F) [1..<13]
      in ([], RenderDashboard labels vals monthlyLabels monthlyData))"


definition MonthlyTotals :: "'a float_ops \<Rightarrow> nat \<Rightarrow> 'a Expense list \<Rightarrow> (string \<times> 'a) list" where
  "MonthlyTotals F uid tbl =
     (case snd (dashboard F (Some uid) tbl) of
        RenderDashboard labels vals monthlyLabels monthlyData \<Rightarrow> zip monthlyLabels monthlyData
      | _ \<Rightarrow> [])"






section \<open>A double-precision instance of the float operations\<close>

text \<open>
  For evaluating the handlers on concrete requests: finite doubles as the rationals they
  denote. \<open>dbl_round\<close> rounds a rational to the nearest number with a 53-bit significand,
  ties to the even significand. Overflow to infinity, subnormal numbers, the sign of zero
  and NaN are left out. \<open>dec_float\<close> reads plain decimal literals (an optional sign,
  digits, an optional point); the rest of what \<^verbatim>\<open>float\<close> reads (exponents,
  \<^verbatim>\<open>inf\<close>, \<^verbatim>\<open>nan\<close>, underscores, surrounding blanks) is not covered. \<open>dec_str\<close> writes
  the exact decimal expansion, which is \<^verbatim>\<open>str\<close> of the float when that expansion has
  at most 15 significant digits and the value lies between 1e-4 and 1e16.
\<close>

definition round_half_even :: "rat \<Rightarrow> int" where
  "round_half_even x =
     (let f = \<lfloor>x\<rfloor>; r = x - of_int f
      in if r < 1 / 2 then f else if 1 / 2 < r then f + 1 else if even f then f else f + 1)"

function bitlen :: "int \<Rightarrow> nat" where
  "bitlen n = (if n \<le> 0 then 0 else Suc (bitlen (n div 2)))"
  by pat_completeness auto
termination
  by (relation "measure nat") auto

declare bitlen.simps [simp del]

definition pow2 :: "int \<Rightarrow> rat" where
  "pow2 k = (if 0 \<le> k then 2 ^ nat k else 1 / 2 ^ nat (- k))"

definition dbl_round :: "rat \<Rightarrow> rat" where
  "dbl_round q =
     (if q = 0 then 0
      else let a = \<bar>q\<bar>;
               (n, d) = quotient_of a;
               k = int (bitlen n) - int (bitlen d);
               p = (if pow2 k \<le> a then k else k - 1);
               u = pow2 (p - 52)
           in sgn q * of_int (round_half_even (a / u)) * u)"

definition dec_float :: "string \<Rightarrow> rat option" where
  "dec_float s =
     (let (neg, s1) = (case s of
                         c # r \<Rightarrow> if c = CHR ''-'' then (True, r)
                                  else if c = CHR ''+'' then (False, r) else (False, s)
                       | [] \<Rightarrow> (False, s));
          ip = takeWhile is_digit s1;
          r1 = dropWhile is_digit s1;
          fp = (case r1 of c # r \<Rightarrow> if c = CHR ''.'' then Some r else None | [] \<Rightarrow> Some [])
      in case fp of
           None \<Rightarrow> None
         | Some f \<Rightarrow>
             if \<not> list_all is_digit f \<or> (ip = [] \<and> f = []) then None
             else Some (dbl_round ((if neg then - 1 else 1) *
                          (of_nat (py_int ip) + of_nat (py_int f) / 10 ^ length f))))"

fun frac_digits :: "nat \<Rightarrow> rat \<Rightarrow> string" where
  "frac_digits 0 f = []"
| "frac_digits (Suc n) f =
     (if f = 0 then []
      else let t = 10 * f; d = \<lfloor>t\<rfloor> in digit_char (nat d) # frac_digits n (t - of_int d))"

function int_digits :: "int \<Rightarrow> string" where
  "int_digits n =
     (if n < 10 then [digit_char (nat n)]
      else int_digits (n div 10) @ [digit_char (nat (n mod 10))])"
  by pat_completeness auto
termination
  by (relation "measure nat") auto

declare int_digits.simps [simp del]

definition dec_str :: "rat \<Rightarrow> string" where
  "dec_str q =
     (let a = \<bar>q\<bar>; i = \<lfloor>a\<rfloor>; f = a - of_int i
      in (if q < 0 then ''-'' else '''') @ int_digits i @ ''.'' @
         (if f = 0 then ''0'' else frac_digits 1100 f))"

definition double_ops :: "rat float_ops" where
  "double_ops = \<lparr>float_of_str = dec_float, float_str = dec_str, float_isnan = (\<lambda>x. False),
                  float_add = (\<lambda>x y. dbl_round (x + y)), float_zero = 0\<rparr>"

section \<open>Requests and tables used as examples\<close>

definition coffee :: "rat Expense" where
  "coffee = \<lparr>e_id = 1, description = ''Coffee'', amount = 7 / 2,
             date = \<lparr>year = 2024, month = 1, day = 15\<rparr>, category = ''Food'', user_id = 1\<rparr>"

definition tea_form :: "string \<rightharpoonup> string" where
  "tea_form = [''description'' \<mapsto> ''Tea'', ''amount'' \<mapsto> ''2.25'', ''date'' \<mapsto> ''2024-02-01'',
               ''category'' \<mapsto> ''Drinks'']"

definition coffee_form :: "string \<rightharpoonup> string" where
  "coffee_form = [''description'' \<mapsto> ''Coffee'', ''amount'' \<mapsto> ''3.50'', ''date'' \<mapsto> ''2024-01-15'',
                  ''category'' \<mapsto> ''Food'']"

definition bad_date_form :: "string \<rightharpoonup> string" where
  "bad_date_form = [''description'' \<mapsto> ''Tea'', ''amount'' \<mapsto> ''2.25'', ''date'' \<mapsto> ''2024-02-30'',
                    ''category'' \<mapsto> ''Drinks'']"

definition blank_form :: "string \<rightharpoonup> string" where
  "blank_form = [''description'' \<mapsto> [], ''amount'' \<mapsto> ''3.50'', ''date'' \<mapsto> ''2024-01-15'',
                 ''category'' \<mapsto> ''Food'']"

definition alice :: User where
  "alice = \<lparr>u_id = 1, username = ''alice'', password = ''hash:secret''\<rparr>"

text \<open>A stand-in for \<^verbatim>\<open>check_password_hash\<close> in examples.\<close>

definition toy_check :: "string \<Rightarrow> string \<Rightarrow> bool" where
  "toy_check pwhash pw = (pwhash = ''hash:'' @ pw)"

section \<open>Reading the date bounds of a listing\<close>

text \<open>
  What \<^verbatim>\<open>expenses\<close> makes of a query parameter: \<open>given_bound\<close> is the date it filters
  by (none when the parameter is missing, empty, or not a date), \<open>bad_bound\<close> says when
  the \<^verbatim>\<open>except\<close> branch is taken.
\<close>

definition given_bound :: "string option \<Rightarrow> pydate option" where
  "given_bound p = (case p of None \<Rightarrow> None | Some s \<Rightarrow> if s = [] then None else strptime s)"

definition bad_bound :: "string option \<Rightarrow> bool" where
  "bad_bound p = (case p of None \<Rightarrow> False | Some s \<Rightarrow> s \<noteq> [] \<and> strptime s = None)"

section \<open>Tables used as examples for the dashboard\<close>

definition march_table :: "rat Expense list" where
  "march_table =
     [\<lparr>e_id = 1, description = ''Books'', amount = 10,
       date = \<lparr>year = 2023, month = 3, day = 1\<rparr>, category = ''Study'', user_id = 1\<rparr>,
      \<lparr>e_id = 2, description = ''Train'', amount = 20,
       date = \<lparr>year = 2024, month = 3, day = 10\<rparr>, category = ''Travel'', user_id = 1\<rparr>]"

text \<open>
  The doubles nearest to 0.1, 0.2 and 0.3, and a table of three expenses with these
  amounts.
\<close>

definition tenth :: rat where
  "tenth = 3602879701896397 / 36028797018963968"

definition two_tenths :: rat where
  "two_tenths = 3602879701896397 / 18014398509481984"

definition three_tenths :: rat where
  "three_tenths = 5404319552844595 / 18014398509481984"

definition tenths_table :: "rat Expense list" where
  "tenths_table =
     [\<lparr>e_id = 1, description = ''Pen'', amount = tenth,
       date = \<lparr>year = 2024, month = 1, day = 5\<rparr>, category = ''Office'', user_id = 1\<rparr>,
      \<lparr>e_id = 2, description = ''Gum'', amount = two_tenths,
       date = \<lparr>year = 2024, month = 1, day = 6\<rparr>, category = ''Food'', user_id = 1\<rparr>,
      \<lparr>e_id = 3, description = ''Tea'', amount = three_tenths,
       date = \<lparr>year = 2024, month = 2, day = 7\<rparr>, category = ''Food'', user_id = 1\<rparr>]"


section \<open>Properties of the store\<close>

lemma query_get_id: "query_get i tbl = Some e \<Longrightarrow> e_id e = i \<and> e \<in> set tbl"
  by (auto simp: query_get_def find_Some_iff)

lemma fold_max_ge: "x \<in> set xs \<Longrightarrow> x \<le> fold max xs (a::nat)"
proof (induction xs arbitrary: a)
  case Nil
  then show ?case by simp
next
  case (Cons y ys)
  have mono: "b \<le> fold max ys b" for b :: nat
    by (induction ys arbitrary: b) (auto intro: order_trans [OF max.cobounded2])
  from Cons show ?case
    by (auto intro: order_trans [OF max.cobounded1 mono])
qed

lemma next_id_fresh: "e \<in> set tbl \<Longrightarrow> e_id e < next_id tbl"
  unfolding next_id_def using fold_max_ge [of "e_id e" "map e_id tbl" 0] by auto

lemma mset_order_by_date_desc: "mset (order_by_date_desc rows) = mset rows"
  by (simp add: order_by_date_desc_def)

lemma sorted_order_by_date_desc:
  "sorted (rev (map (\<lambda>e. date_key (date e)) (order_by_date_desc rows)))"
  by (simp add: order_by_date_desc_def rev_map)

section \<open>Evaluations used in the examples\<close>

lemma strptime_jan15: "strptime ''2024-01-15'' = Some \<lparr>year = 2024, month = 1, day = 15\<rparr>"
  by code_simp

lemma strptime_feb30: "strptime ''2024-02-30'' = None"
  by code_simp

lemma strptime_feb01: "strptime ''2024-02-01'' = Some \<lparr>year = 2024, month = 2, day = 1\<rparr>"
  by code_simp

lemma float_350: "float_of_str double_ops ''3.50'' = Some (7 / 2)"
  by code_simp

lemma float_225: "float_of_str double_ops ''2.25'' = Some (9 / 4)"
  by code_simp

lemma double_ops_isnan [simp]: "float_isnan double_ops x = False"
  by (simp add: double_ops_def)

section \<open>Editing and deleting\<close>

text \<open>
  Claim C1. An edit by the owner of an existing expense is all-or-nothing. When the
  request is a POST whose four fields are present, whose amount is read by \<^verbatim>\<open>float\<close>
  as a number that can be stored and whose date is read by \<^verbatim>\<open>strptime\<close>, the row is
  replaced by one with the new description, amount, date and category. In every other
  case (a field missing, an amount or a date that does not parse, a GET) the committed
  table is exactly what it was: the assignments made before the failure were never
  committed. No other row changes.
\<close>

theorem edit_expense_atomic:
  assumes "query_get expense_id tbl = Some e" and "user_id e = uid"
  shows "(\<forall>desc amt a ds d cat.
            meth = POST \<and> form ''description'' = Some desc \<and> form ''amount'' = Some amt \<and>
            float_of_str F amt = Some a \<and> \<not> float_isnan F a \<and> form ''date'' = Some ds \<and>
            strptime ds = Some d \<and> form ''category'' = Some cat \<longrightarrow>
            fst (edit_expense F (Some uid) meth expense_id form tbl) =
              map (\<lambda>r. if e_id r = expense_id
                        then e\<lparr>description := desc, amount := a, date := d, category := cat\<rparr>
                        else r) tbl)
       \<and> (fst (edit_expense F (Some uid) meth expense_id form tbl) = tbl
          \<or> (\<exists>desc amt a ds d cat.
                form ''description'' = Some desc \<and> form ''amount'' = Some amt \<and>
                float_of_str F amt = Some a \<and> form ''date'' = Some ds \<and> strptime ds = Some d \<and>
                form ''category'' = Some cat \<and>
                fst (edit_expense F (Some uid) meth expense_id form tbl) =
                  map (\<lambda>r. if e_id r = expense_id
                            then e\<lparr>description := desc, amount := a, date := d, category := cat\<rparr>
                            else r) tbl))"
  using assms query_get_id [OF assms(1)]
  by (auto simp: edit_expense_def commit_update_def Let_def split: option.splits)

theorem edit_expense_atomic_witness:
  "query_get 1 [coffee] = Some coffee \<and> user_id coffee = 1
   \<and> fst (edit_expense double_ops (Some 1) POST 1 bad_date_form [coffee]) = [coffee]
   \<and> fst (edit_expense double_ops (Some 1) POST 1 tea_form [coffee]) =
       [coffee\<lparr>description := ''Tea'', amount := 9 / 4,
               date := \<lparr>year = 2024, month = 2, day = 1\<rparr>, category := ''Drinks''\<rparr>]"
proof -
  have h1: "query_get 1 [coffee] = Some coffee" by (simp add: query_get_def coffee_def)
  have h2: "user_id coffee = 1" by (simp add: coffee_def)
  have "bad_date_form ''date'' = Some ''2024-02-30''" by (simp add: bad_date_form_def)
  with edit_expense_atomic [OF h1 h2, of POST bad_date_form double_ops]
  have a: "fst (edit_expense double_ops (Some 1) POST 1 bad_date_form [coffee]) = [coffee]"
    by (auto simp: strptime_feb30)
  have ok: "POST = POST \<and> tea_form ''description'' = Some ''Tea'' \<and> tea_form ''amount'' = Some ''2.25''
            \<and> float_of_str double_ops ''2.25'' = Some (9 / 4) \<and> \<not> float_isnan double_ops (9 / 4)
            \<and> tea_form ''date'' = Some ''2024-02-01''
            \<and> strptime ''2024-02-01'' = Some \<lparr>year = 2024, month = 2, day = 1\<rparr>
            \<and> tea_form ''category'' = Some ''Drinks''"
    by (simp add: tea_form_def strptime_feb01 float_225)
  from edit_expense_atomic [OF h1 h2, of POST tea_form double_ops] ok
  have "fst (edit_expense double_ops (Some 1) POST 1 tea_form [coffee]) =
          map (\<lambda>r. if e_id r = 1
                    then coffee\<lparr>description := ''Tea'', amount := 9 / 4,
                                date := \<lparr>year = 2024, month = 2, day = 1\<rparr>, category := ''Drinks''\<rparr>
                    else r) [coffee]"
    by blast
  then have b: "fst (edit_expense double_ops (Some 1) POST 1 tea_form [coffee]) =
       [coffee\<lparr>description := ''Tea'', amount := 9 / 4,
               date := \<lparr>year = 2024, month = 2, day = 1\<rparr>, category := ''Drinks''\<rparr>]"
    by (simp add: coffee_def)
  from h1 h2 a b show ?thesis by simp
qed

text \<open>
  Claim C2. When the expense exists and the caller is not its owner, both
  \<^verbatim>\<open>edit_expense\<close> and \<^verbatim>\<open>delete_expense\<close> flash the refusal, redirect to the
  listing and leave the table unchanged, whatever the method and the form.
\<close>

theorem non_owner_forbidden:
  assumes "query_get expense_id tbl = Some e" and "user_id e \<noteq> uid"
  shows "edit_expense F (Some uid) meth expense_id form tbl =
           (tbl, [Flash ''You are not authorized to edit this expense.'' ''danger''],
            Redirect ''expenses'')
       \<and> delete_expense (Some uid) expense_id tbl =
           (tbl, [Flash ''You are not authorized to delete this expense.'' ''danger''],
            Redirect ''expenses'')"
  using assms by (simp add: edit_expense_def delete_expense_def)

theorem non_owner_forbidden_witness:
  "query_get 1 [coffee] = Some coffee \<and> user_id coffee \<noteq> 2
   \<and> edit_expense double_ops (Some 2) POST 1 tea_form [coffee] =
           ([coffee], [Flash ''You are not authorized to edit this expense.'' ''danger''],
            Redirect ''expenses'')
   \<and> delete_expense (Some 2) 1 [coffee] =
           ([coffee], [Flash ''You are not authorized to delete this expense.'' ''danger''],
            Redirect ''expenses'')"
proof -
  have h1: "query_get 1 [coffee] = Some coffee" by (simp add: query_get_def coffee_def)
  have h2: "user_id coffee \<noteq> 2" by (simp add: coffee_def)
  from non_owner_forbidden [OF h1 h2, of double_ops POST tea_form] h1 h2 show ?thesis by simp
qed

section \<open>Listing\<close>

text \<open>
  Claim C3. For a logged-in owner the listing holds exactly the owner's expenses whose
  date is on or after the start bound and on or before the end bound, each bound
  counting only when it is given (present and not empty) and is a date; the rows are in
  descending order of date. A bound that is given but is not a date is dropped, its
  warning is flashed, and the listing is still produced with the other bound.
\<close>

theorem list_expenses_filtered_sorted:
  "\<exists>rows. expenses (Some uid) args tbl =
            ((if bad_bound (args ''start_date'')
              then [Flash ''Invalid start date format. Use YYYY-MM-DD.'' ''danger''] else []) @
             (if bad_bound (args ''end_date'')
              then [Flash ''Invalid end date format. Use YYYY-MM-DD.'' ''danger''] else []),
             RenderExpenses rows)
     \<and> mset rows =
         mset (filter (\<lambda>e. user_id e = uid
                 \<and> (case given_bound (args ''start_date'') of
                      None \<Rightarrow> True | Some d \<Rightarrow> date_key d \<le> date_key (date e))
                 \<and> (case given_bound (args ''end_date'') of
                      None \<Rightarrow> True | Some d \<Rightarrow> date_key (date e) \<le> date_key d)) tbl)
     \<and> sorted (rev (map (\<lambda>e. date_key (date e)) rows))"
  by (auto simp: expenses_def Let_def given_bound_def bad_bound_def filter_by_user_id_def
        mset_order_by_date_desc sorted_order_by_date_desc
      split: option.splits intro!: filter_mset_cong)

text \<open>
  Claim C10. An empty \<^verbatim>\<open>start_date\<close> or \<^verbatim>\<open>end_date\<close> gives the same result as
  leaving the parameter out, and a warning is flashed exactly when a bound is not empty
  and is not a date.
\<close>

theorem empty_bound_is_absent:
  "expenses cu (args(''start_date'' \<mapsto> [])) tbl = expenses cu (args(''start_date'' := None)) tbl
   \<and> expenses cu (args(''end_date'' \<mapsto> [])) tbl = expenses cu (args(''end_date'' := None)) tbl
   \<and> (Flash ''Invalid start date format. Use YYYY-MM-DD.'' ''danger'' \<in> set (fst (expenses (Some uid) args tbl))
        \<longleftrightarrow> (\<exists>s. args ''start_date'' = Some s \<and> s \<noteq> [] \<and> strptime s = None))
   \<and> (Flash ''Invalid end date format. Use YYYY-MM-DD.'' ''danger'' \<in> set (fst (expenses (Some uid) args tbl))
        \<longleftrightarrow> (\<exists>s. args ''end_date'' = Some s \<and> s \<noteq> [] \<and> strptime s = None))"
  by (auto simp: expenses_def Let_def split: option.splits)

text \<open>
  Two listings of a table of three expenses of one owner: a start bound with an end
  bound that is not a date, and an empty start bound with an end bound.
\<close>

lemma listing_example:
  "expenses (Some 1) [''start_date'' \<mapsto> ''2024-01-06'', ''end_date'' \<mapsto> ''soon''] tenths_table =
     ([Flash ''Invalid end date format. Use YYYY-MM-DD.'' ''danger''],
      RenderExpenses [tenths_table ! 2, tenths_table ! 1])"
  by (simp add: expenses_def tenths_table_def filter_by_user_id_def order_by_date_desc_def
        date_key_def strptime_def is_digit_def make_date_def valid_date_def days_in_month_def
        py_int_def digit_val_def)

lemma listing_example_empty_bound:
  "expenses (Some 1) [''start_date'' \<mapsto> [], ''end_date'' \<mapsto> ''2024-01-31''] tenths_table =
     ([], RenderExpenses [tenths_table ! 1, tenths_table ! 0])"
  by (simp add: expenses_def tenths_table_def filter_by_user_id_def order_by_date_desc_def
        date_key_def strptime_def is_digit_def make_date_def valid_date_def days_in_month_def
        py_int_def digit_val_def)

section \<open>Adding\<close>

text \<open>
  Claim C6. For a POST with all four fields: when the date is not read by
  \<^verbatim>\<open>strptime\<close>, or the amount is not read by \<^verbatim>\<open>float\<close>, or it is read as NaN (which
  the table cannot store), \<^verbatim>\<open>add_expense\<close> flashes the error and leaves the table
  unchanged. Otherwise it appends exactly one row, owned by the caller, with a fresh
  key and the submitted values, and the owner's listing that follows holds that row
  exactly once.
\<close>

theorem add_expense_validates_or_inserts:
  assumes "form ''description'' = Some desc" and "form ''amount'' = Some amt"
    and "form ''date'' = Some ds" and "form ''category'' = Some cat"
  shows "(strptime ds = None \<or> float_of_str F amt = None
            \<or> (\<exists>a. float_of_str F amt = Some a \<and> float_isnan F a) \<longrightarrow>
          (\<exists>e. add_expense F (Some uid) POST form tbl =
                 (tbl, [FlashExc ''Error adding expense: '' e ''danger''], Redirect ''add_expense'')))
       \<and> (\<forall>d a. strptime ds = Some d \<and> float_of_str F amt = Some a \<and> \<not> float_isnan F a \<longrightarrow>
            add_expense F (Some uid) POST form tbl =
              (tbl @ [\<lparr>e_id = next_id tbl, description = desc, amount = a, date = d,
                       category = cat, user_id = uid\<rparr>],
               [Flash ''Expense added successfully!'' ''success''], Redirect ''expenses'')
          \<and> (\<exists>rows. expenses (Some uid) Map.empty (fst (add_expense F (Some uid) POST form tbl))
                       = ([], RenderExpenses rows)
                \<and> count_list rows \<lparr>e_id = next_id tbl, description = desc, amount = a, date = d,
                                     category = cat, user_id = uid\<rparr> = 1))"
proof (intro conjI impI allI)
  assume "strptime ds = None \<or> float_of_str F amt = None
            \<or> (\<exists>a. float_of_str F amt = Some a \<and> float_isnan F a)"
  then show "\<exists>e. add_expense F (Some uid) POST form tbl =
                 (tbl, [FlashExc ''Error adding expense: '' e ''danger''], Redirect ''add_expense'')"
    using assms by (auto simp: add_expense_def commit_add_def Let_def split: option.splits)
next
  fix d a
  assume ok: "strptime ds = Some d \<and> float_of_str F amt = Some a \<and> \<not> float_isnan F a"
  let ?new = "\<lparr>e_id = next_id tbl, description = desc, amount = a, date = d,
                category = cat, user_id = uid\<rparr>"
  show added: "add_expense F (Some uid) POST form tbl =
              (tbl @ [?new], [Flash ''Expense added successfully!'' ''success''], Redirect ''expenses'')"
    using assms ok by (simp add: add_expense_def commit_add_def)
  have fresh: "?new \<notin> set tbl"
    using next_id_fresh [of ?new tbl] by auto
  let ?rows = "order_by_date_desc (filter_by_user_id uid (tbl @ [?new]))"
  have "count (mset ?rows) ?new = 1"
    using fresh by (simp add: mset_order_by_date_desc filter_by_user_id_def count_eq_zero_iff)
  then have "count_list ?rows ?new = 1"
    by (simp add: count_mset)
  moreover have "expenses (Some uid) Map.empty (tbl @ [?new]) = ([], RenderExpenses ?rows)"
    by (simp add: expenses_def)
  ultimately show "\<exists>rows. expenses (Some uid) Map.empty (fst (add_expense F (Some uid) POST form tbl))
                       = ([], RenderExpenses rows) \<and> count_list rows ?new = 1"
    using added by simp
qed

theorem add_expense_validates_or_inserts_witness:
  "add_expense double_ops (Some 1) POST coffee_form [] =
     ([coffee], [Flash ''Expense added successfully!'' ''success''], Redirect ''expenses'')
   \<and> (\<exists>rows. expenses (Some 1) Map.empty [coffee] = ([], RenderExpenses rows)
          \<and> count_list rows coffee = 1)
   \<and> (\<exists>e. add_expense double_ops (Some 1) POST bad_date_form [coffee] =
          ([coffee], [FlashExc ''Error adding expense: '' e ''danger''], Redirect ''add_expense''))"
proof -
  let ?new = "\<lparr>e_id = next_id ([] :: rat Expense list), description = ''Coffee'', amount = 7 / 2 :: rat,
              date = \<lparr>year = 2024, month = 1, day = 15\<rparr>, category = ''Food'', user_id = 1\<rparr>"
  have new: "?new = coffee"
    by (simp add: coffee_def next_id_def)
  have ok: "strptime ''2024-01-15'' = Some \<lparr>year = 2024, month = 1, day = 15\<rparr>
            \<and> float_of_str double_ops ''3.50'' = Some (7 / 2) \<and> \<not> float_isnan double_ops (7 / 2)"
    by (simp add: strptime_jan15 float_350)
  have f: "coffee_form ''description'' = Some ''Coffee''" "coffee_form ''amount'' = Some ''3.50''"
    "coffee_form ''date'' = Some ''2024-01-15''" "coffee_form ''category'' = Some ''Food''"
    by (simp_all add: coffee_form_def)
  from add_expense_validates_or_inserts [OF f, of double_ops 1 "[]"] ok
  have "add_expense double_ops (Some 1) POST coffee_form [] =
          ([] @ [?new], [Flash ''Expense added successfully!'' ''success''], Redirect ''expenses'')
        \<and> (\<exists>rows. expenses (Some 1) Map.empty
                      (fst (add_expense double_ops (Some 1) POST coffee_form []))
                       = ([], RenderExpenses rows) \<and> count_list rows ?new = 1)"
    by blast
  then have a: "add_expense double_ops (Some 1) POST coffee_form [] =
     ([coffee], [Flash ''Expense added successfully!'' ''success''], Redirect ''expenses'')
   \<and> (\<exists>rows. expenses (Some 1) Map.empty [coffee] = ([], RenderExpenses rows)
          \<and> count_list rows coffee = 1)"
    unfolding new by auto
  have g: "bad_date_form ''description'' = Some ''Tea''" "bad_date_form ''amount'' = Some ''2.25''"
    "bad_date_form ''date'' = Some ''2024-02-30''" "bad_date_form ''category'' = Some ''Drinks''"
    by (simp_all add: bad_date_form_def)
  from add_expense_validates_or_inserts [OF g, of double_ops 1 "[coffee]"] strptime_feb30
  have b: "\<exists>e. add_expense double_ops (Some 1) POST bad_date_form [coffee] =
          ([coffee], [FlashExc ''Error adding expense: '' e ''danger''], Redirect ''add_expense'')"
    by blast
  from a b show ?thesis by simp
qed

text \<open>
  Claim C9, as stated, fails: no handler checks the description, so an empty one is
  stored. Here \<^verbatim>\<open>add_expense\<close> is given an empty description and stores it.
\<close>

theorem empty_description_stored:
  "add_expense double_ops (Some 1) POST blank_form [] =
     ([\<lparr>e_id = 1, description = [], amount = 7 / 2, date = \<lparr>year = 2024, month = 1, day = 15\<rparr>,
        category = ''Food'', user_id = 1\<rparr>],
      [Flash ''Expense added successfully!'' ''success''], Redirect ''expenses'')"
  by (simp add: add_expense_def blank_form_def strptime_jan15 float_350 commit_add_def next_id_def)

text \<open>
  Claim C9, amended. The handlers store the description they are given: if every stored
  description is non-empty and the submitted one is not the empty string, every stored
  description is non-empty after \<^verbatim>\<open>add_expense\<close>, \<^verbatim>\<open>edit_expense\<close> and
  \<^verbatim>\<open>delete_expense\<close>.
\<close>

theorem description_kept_nonempty:
  assumes "\<forall>e\<in>set tbl. description e \<noteq> []" and "form ''description'' \<noteq> Some []"
  shows "(\<forall>e\<in>set (fst (add_expense F cu meth form tbl)). description e \<noteq> [])
       \<and> (\<forall>e\<in>set (fst (edit_expense F cu meth expense_id form tbl)). description e \<noteq> [])
       \<and> (\<forall>e\<in>set (fst (delete_expense cu expense_id tbl)). description e \<noteq> [])"
proof (intro conjI)
  show "\<forall>e\<in>set (fst (add_expense F cu meth form tbl)). description e \<noteq> []"
    using assms
    by (auto simp: add_expense_def commit_add_def Let_def split: option.splits if_splits)
  show "\<forall>e\<in>set (fst (edit_expense F cu meth expense_id form tbl)). description e \<noteq> []"
    using assms
    by (auto simp: edit_expense_def commit_update_def Let_def split: option.splits if_splits)
  show "\<forall>e\<in>set (fst (delete_expense cu expense_id tbl)). description e \<noteq> []"
    using assms
    by (auto simp: delete_expense_def commit_delete_def split: option.splits if_splits)
qed

theorem description_kept_nonempty_witness:
  "[] \<notin> set (map description [coffee]) \<and> tea_form ''description'' \<noteq> Some []
   \<and> [] \<notin> set (map description (fst (add_expense double_ops (Some 1) POST tea_form [coffee])))
   \<and> [] \<notin> set (map description (fst (edit_expense double_ops (Some 1) POST 1 tea_form [coffee])))
   \<and> [] \<notin> set (map description (fst (delete_expense (Some 1) 1 [coffee])))"
proof -
  have h1: "\<forall>e\<in>set [coffee]. description e \<noteq> []" by (simp add: coffee_def)
  have h2: "tea_form ''description'' \<noteq> Some []" by (simp add: tea_form_def)
  from description_kept_nonempty
         [where tbl = "[coffee]" and form = tea_form and F = double_ops and cu = "Some 1"
            and meth = POST and expense_id = 1, OF h1 h2] h1 h2
  show ?thesis by (simp add: image_iff) metis
qed

section \<open>Logging in\<close>

text \<open>
  Claim C8. A login with a username that is not registered and a login with a
  registered username and a password that does not verify give the same result: the
  same flashed message, the same redirect, and the session as it was.
\<close>

theorem login_failures_identical:
  assumes "form1 ''username'' = Some u1" and "form1 ''password'' = Some p1"
    and "find (\<lambda>u. username u = u1) users = None"
    and "form2 ''username'' = Some u2" and "form2 ''password'' = Some p2"
    and "find (\<lambda>u. username u = u2) users = Some usr" and "\<not> chk (password usr) p2"
  shows "login chk cu POST form1 users = (cu, [Flash ''Invalid username or password!'' ''danger''], Redirect ''login'')
       \<and> login chk cu POST form2 users = (cu, [Flash ''Invalid username or password!'' ''danger''], Redirect ''login'')"
  using assms by (simp add: login_def)

theorem login_failures_identical_witness:
  "login toy_check None POST [''username'' \<mapsto> ''bob'', ''password'' \<mapsto> ''secret''] [alice] =
     (None, [Flash ''Invalid username or password!'' ''danger''], Redirect ''login'' :: rat response)
   \<and> login toy_check None POST [''username'' \<mapsto> ''alice'', ''password'' \<mapsto> ''guess''] [alice] =
     (None, [Flash ''Invalid username or password!'' ''danger''], Redirect ''login'' :: rat response)"
proof -
  have h3: "find (\<lambda>u. username u = ''bob'') [alice] = None" by (simp add: alice_def)
  have h6: "find (\<lambda>u. username u = ''alice'') [alice] = Some alice" by (simp add: alice_def)
  have h7: "\<not> toy_check (password alice) ''guess''" by (simp add: alice_def toy_check_def)
  show ?thesis
    using login_failures_identical
            [of "[''username'' \<mapsto> ''bob'', ''password'' \<mapsto> ''secret'']" "''bob''" "''secret''" "[alice]"
                "[''username'' \<mapsto> ''alice'', ''password'' \<mapsto> ''guess'']" "''alice''" "''guess''" alice
                toy_check None, OF _ _ h3 _ _ h6 h7]
    by simp
qed

section \<open>The dashboard's monthly totals\<close>

text \<open>Reading back the month that SQLite's \<^verbatim>\<open>strftime\<close> wrote.\<close>

lemma digit_val_digit_char: "n < 10 \<Longrightarrow> digit_val (digit_char n) = n"
  by (simp add: digit_val_def digit_char_def)

lemma py_int_snoc: "py_int (s @ [c]) = 10 * py_int s + digit_val c"
  by (simp add: py_int_def)

lemma py_int_digits: "py_int (digits n) = n"
proof (induction n rule: digits.induct)
  case (1 n)
  show ?case
  proof (cases "n < 10")
    case True
    then show ?thesis
      by (subst digits.simps) (simp add: py_int_def digit_val_digit_char)
  next
    case False
    with 1 have "py_int (digits (n div 10)) = n div 10" by simp
    with False show ?thesis
      by (subst digits.simps) (simp add: py_int_snoc digit_val_digit_char)
  qed
qed

lemma py_int_zeros: "py_int (replicate k (CHR ''0'') @ s) = py_int s"
proof -
  have "foldl (\<lambda>n c. 10 * n + digit_val c) 0 (replicate k (CHR ''0'')) = 0"
    by (induction k) (simp_all add: digit_val_def)
  then show ?thesis by (simp add: py_int_def)
qed

lemma py_int_zfill: "py_int (zfill w n) = n"
  by (simp add: zfill_def py_int_zeros py_int_digits)

lemma sql_sum_Nil: "sql_sum F [] = float_zero F"
  by (simp add: sql_sum_def)

text \<open>
  The dictionary built from the grouped query maps a month number to the sum of that
  month's rows, and has no entry for a month without rows.
\<close>

lemma month_lookup:
  "map_of (rev (map (\<lambda>(month, total). (py_int month, total))
                 (group_sum F (\<lambda>e. strftime_m (date e)) rows))) i =
     (if \<exists>e\<in>set rows. month (date e) = i
      then Some (sql_sum F (map amount (filter (\<lambda>e. month (date e) = i) rows)))
      else None)"
proof -
  let ?key = "\<lambda>e. strftime_m (date e)"
  let ?g = "\<lambda>k. sql_sum F (map amount (filter (\<lambda>e. ?key e = k) rows))"
  let ?ks = "remdups (map ?key rows)"
  let ?l = "map (\<lambda>k. (py_int k, ?g k)) ?ks"
  have l: "map (\<lambda>(month, total). (py_int month, total)) (group_sum F ?key rows) = ?l"
    by (simp add: group_sum_def)
  have key_month: "?key e = zfill 2 (month (date e))" for e :: "'a Expense"
    by (simp add: strftime_m_def)
  have key_iff: "?key e = ?key e' \<longleftrightarrow> month (date e) = month (date e')" for e e' :: "'a Expense"
    by (metis key_month py_int_zfill)
  have "inj_on py_int (set ?ks)"
    by (auto simp: inj_on_def key_month) (metis py_int_zfill)
  then have dist: "distinct (map fst (rev ?l))"
    by (simp add: distinct_map comp_def rev_map [symmetric])
  show ?thesis
  proof (cases "\<exists>e\<in>set rows. month (date e) = i")
    case True
    then obtain e where e: "e \<in> set rows" "month (date e) = i" by blast
    have same: "filter (\<lambda>e'. ?key e' = ?key e) rows = filter (\<lambda>e'. month (date e') = i) rows"
      using e(2) by (simp add: key_iff)
    have "(i, ?g (?key e)) \<in> set (rev ?l)"
      using e by (auto simp: key_month py_int_zfill image_iff intro!: bexI [of _ e])
    with dist have "map_of (rev ?l) i = Some (?g (?key e))"
      by (simp only: map_of_eq_Some_iff)
    with True same l show ?thesis by simp
  next
    case False
    then have "i \<notin> fst ` set (rev ?l)"
      by (auto simp: key_month py_int_zfill)
    then have "map_of (rev ?l) i = None"
      by (rule map_of_eq_None_iff [THEN iffD2])
    with False l show ?thesis by simp
  qed
qed

lemma monthly_data:
  "map (\<lambda>i. case map_of (rev (map (\<lambda>(month, total). (py_int month, total))
                 (group_sum F (\<lambda>e. strftime_m (date e)) (filter_by_user_id uid tbl)))) i of
             Some t \<Rightarrow> t | None \<Rightarrow> float_zero F) ms
   = map (\<lambda>m. sql_sum F (map amount (filter (\<lambda>e. user_id e = uid \<and> month (date e) = m) tbl))) ms"
proof (rule map_cong [OF refl])
  fix m
  have none: "\<not> (\<exists>e\<in>set (filter_by_user_id uid tbl). month (date e) = m) \<Longrightarrow>
              filter (\<lambda>e. user_id e = uid \<and> month (date e) = m) tbl = []"
    by (auto simp: filter_by_user_id_def filter_empty_conv)
  show "(case map_of (rev (map (\<lambda>(month, total). (py_int month, total))
                 (group_sum F (\<lambda>e. strftime_m (date e)) (filter_by_user_id uid tbl)))) m of
             Some t \<Rightarrow> t | None \<Rightarrow> float_zero F)
        = sql_sum F (map amount (filter (\<lambda>e. user_id e = uid \<and> month (date e) = m) tbl))"
    using none by (simp add: month_lookup sql_sum_Nil) (simp add: filter_by_user_id_def)
qed

lemma month_labels:
  "map (\<lambda>i. month_abbr ! i) [1..<13] =
     [''Jan'', ''Feb'', ''Mar'', ''Apr'', ''May'', ''Jun'',
      ''Jul'', ''Aug'', ''Sep'', ''Oct'', ''Nov'', ''Dec'']"
  by code_simp

lemma MonthlyTotals_eq:
  "MonthlyTotals F uid tbl =
     zip (map (\<lambda>i. month_abbr ! i) [1..<13])
         (map (\<lambda>m. sql_sum F (map amount (filter (\<lambda>e. user_id e = uid \<and> month (date e) = m) tbl)))
            [1..<13])"
  by (simp add: MonthlyTotals_def dashboard_def Let_def monthly_data del: upt_Suc)

text \<open>
  Claim C4. The monthly totals are the twelve months January to December in calendar
  order; the total of a month is SQL's sum of the amounts of the owner's expenses whose
  date has that month, whatever the year, and zero when there is none.
\<close>

theorem monthly_totals:
  "MonthlyTotals F uid tbl =
     zip [''Jan'', ''Feb'', ''Mar'', ''Apr'', ''May'', ''Jun'',
          ''Jul'', ''Aug'', ''Sep'', ''Oct'', ''Nov'', ''Dec'']
         (map (\<lambda>m. let rows = filter (\<lambda>e. user_id e = uid \<and> month (date e) = m) tbl
                    in if rows = [] then float_zero F else sql_sum F (map amount rows))
            [1, 2, 3, 4, 5, 6, 7, 8, 9, 10, 11, 12])
   \<and> length (MonthlyTotals F uid tbl) = 12"
proof -
  have upt: "[1..<13] = [1, 2, 3, 4, 5, 6, 7, 8, 9, 10, 11, 12::nat]"
    by code_simp
  have z: "(let rows = filter P tbl in if rows = [] then float_zero F else sql_sum F (map amount rows))
           = sql_sum F (map amount (filter P tbl))" for P
    by (simp add: Let_def sql_sum_Nil)
  show ?thesis
    unfolding z MonthlyTotals_eq month_labels unfolding upt by simp
qed

text \<open>
  The scenario of the specification: 10 on 2023-03-01 and 20 on 2024-03-10 give March 30
  and every other month 0.
\<close>

theorem monthly_totals_witness:
  "MonthlyTotals double_ops 1 march_table =
     [(''Jan'', 0), (''Feb'', 0), (''Mar'', 30), (''Apr'', 0), (''May'', 0), (''Jun'', 0),
      (''Jul'', 0), (''Aug'', 0), (''Sep'', 0), (''Oct'', 0), (''Nov'', 0), (''Dec'', 0)]"
proof -
  have add: "dbl_round (dbl_round 10 + 20) = 30"
    by code_simp
  show ?thesis
    using monthly_totals [of double_ops 1 march_table]
    by (simp add: march_table_def sql_sum_def double_ops_def add)
qed

section \<open>Monthly totals against category totals\<close>

lemma tenths_are_floats:
  "float_of_str double_ops ''0.1'' = Some tenth
   \<and> float_of_str double_ops ''0.2'' = Some two_tenths
   \<and> float_of_str double_ops ''0.3'' = Some three_tenths"
  by code_simp


















section \<open>The CSV export\<close>



























end
